theory Spec2Isabelle
  imports Complex_Main "HOL-Library.Multiset" "HOL-Library.Sublist"
begin

section \<open>Data model\<close>

text \<open>
  The two tables of the migration (\<^verbatim>\<open>conversations\<close>, \<^verbatim>\<open>messages\<close>) and the
  credential table the router reads (\<^verbatim>\<open>llmApiKeys\<close>). A table is the list of its rows in
  insertion order. Row identifiers are produced by the persistence layer, never by
  the router: the model draws them from a counter. Timestamps are milliseconds on one
  clock, which is read by the column defaults (\<^verbatim>\<open>DEFAULT CURRENT_TIMESTAMP\<close>) and by
  \<^verbatim>\<open>new Date()\<close>.
\<close>

type_synonym ident = nat
type_synonym timestamp = nat

datatype MessageSender = USER | ASSISTANT

record conversation =
  conversation_id :: ident
  conversation_createdAt :: timestamp
  conversation_updatedAt :: timestamp
  conversation_userId :: string
  conversation_projectId :: string

record message =
  message_id :: ident
  message_createdAt :: timestamp
  message_conversationId :: ident
  message_sender :: MessageSender
  message_content :: string

record llm_api_key =
  key_projectId :: string
  key_createdAt :: timestamp
  key_provider :: string
  key_adapter :: string
  key_secretKey :: string
  key_extraHeaders :: "string option"
  key_baseURL :: "string option"
  key_config :: "string option"

subsection \<open>The completion helper's interface\<close>

datatype ChatMessageType = Type_System | Type_User | Type_AssistantText
datatype ChatMessageRole = Role_System | Role_User | Role_Assistant

record ChatMessage =
  chat_type :: ChatMessageType
  chat_role :: ChatMessageRole
  chat_content :: string

record model_params =
  mp_provider :: string
  mp_adapter :: string
  mp_model :: string
  mp_temperature :: rat
  mp_max_tokens :: nat

record llm_request =
  req_streaming :: bool
  req_apiKey :: string
  req_extraHeaders :: "string option"
  req_baseURL :: "string option"
  req_messages :: "ChatMessage list"
  req_modelParams :: model_params
  req_config :: "string option"
  req_maxRetries :: nat

text \<open>
  A value caught by \<^verbatim>\<open>catch (error)\<close>: an instance of \<^verbatim>\<open>Error\<close> with its message,
  or any other thrown value. A completion is a string or something else
  (\<^verbatim>\<open>typeof completion === "string"\<close>).
\<close>

datatype thrown = JsError string | NonError
datatype completion = Text string | NonText

text \<open>
  The helpers imported from the shared package are parameters of the model. Each
  returns its value (\<open>Inr\<close>) or what it throws (\<open>Inl\<close>); \<open>safeParse\<close> returns the
  parsed key or the message of the schema error. The three \<open>elapsed\<close> fields are the
  time that passes before each of the three clock reads of \<^verbatim>\<open>sendMessage\<close>.
\<close>

record env =
  safeParse :: "llm_api_key \<Rightarrow> string + llm_api_key"
  decrypt :: "string \<Rightarrow> thrown + string"
  decryptAndParseExtraHeaders :: "string option \<Rightarrow> thrown + string option"
  fetchLLMCompletion :: "llm_request \<Rightarrow> thrown + completion"
  elapsed_user :: nat
  elapsed_assistant :: nat
  elapsed_update :: nat

subsection \<open>The store and the trace of calls\<close>

datatype event =
    Conversation_findMany
  | Conversation_findFirst
  | Conversation_create
  | Conversation_update
  | Message_create
  | Message_findMany
  | LlmApiKeys_findFirst
  | FetchLLMCompletion llm_request

text \<open>
  The three \<open>tie\<close> fields stand for what the database leaves open: the order in
  which a query returns rows whose sort keys are equal (see \<open>order_asc\<close> below).
\<close>

record world =
  conversations :: "conversation list"
  messages :: "message list"
  llmApiKeys :: "llm_api_key list"
  clock :: timestamp
  next_id :: ident
  trace :: "event list"
  tie_conversations :: "conversation \<Rightarrow> nat"
  tie_messages :: "message \<Rightarrow> nat"
  tie_llmApiKeys :: "llm_api_key \<Rightarrow> nat"

datatype trpc_error = NOT_FOUND | BAD_REQUEST | INTERNAL_SERVER_ERROR

definition emit :: "event \<Rightarrow> world \<Rightarrow> world" where
  "emit e w = w\<lparr>trace := trace w @ [e]\<rparr>"

definition advance :: "nat \<Rightarrow> world \<Rightarrow> world" where
  "advance d w = w\<lparr>clock := clock w + d\<rparr>"

section \<open>The queries of the router\<close>

text \<open>
  \<^verbatim>\<open>orderBy: { k: "asc" }\<close> and \<^verbatim>\<open>orderBy: { k: "desc" }\<close>. The query names one sort
  key and no tie-break, so the order of rows with equal keys is the database's choice:
  it is the parameter \<open>tie\<close>, an arbitrary ranking of the rows that decides among equal
  keys (rows equal in both come in insertion order). Every ordering of the rows that
  is sorted by the key is the answer for some \<open>tie\<close> (\<open>order_asc_any_answer\<close>).
\<close>

definition order_asc :: "('a \<Rightarrow> nat) \<Rightarrow> ('a \<Rightarrow> nat) \<Rightarrow> 'a list \<Rightarrow> 'a list" where
  "order_asc tie k xs = sort_key k (sort_key tie xs)"

definition order_desc :: "('a \<Rightarrow> nat) \<Rightarrow> ('a \<Rightarrow> nat) \<Rightarrow> 'a list \<Rightarrow> 'a list" where
  "order_desc tie k xs = rev (sort_key k (sort_key tie xs))"

definition messages_of :: "ident \<Rightarrow> world \<Rightarrow> message list" where
  "messages_of cid w = filter (\<lambda>m. message_conversationId m = cid) (messages w)"

text \<open>\<^verbatim>\<open>prisma.conversation.findFirst({ where: { id, projectId, userId } })\<close>\<close>

definition conversation_findFirst ::
  "ident \<Rightarrow> string \<Rightarrow> string \<Rightarrow> world \<Rightarrow> conversation option \<times> world" where
  "conversation_findFirst cid pid uid w =
     (find (\<lambda>c. conversation_id c = cid \<and> conversation_projectId c = pid
                 \<and> conversation_userId c = uid) (conversations w),
      emit Conversation_findFirst w)"

text \<open>
  \<^verbatim>\<open>prisma.conversation.findMany\<close> of \<^verbatim>\<open>all\<close>: each row comes with its newest message
  (\<^verbatim>\<open>orderBy: { createdAt: "desc" }, take: 1\<close>) and the count of its messages.
\<close>

definition conversation_findMany ::
  "string \<Rightarrow> string \<Rightarrow> world \<Rightarrow> (conversation \<times> message list \<times> nat) list \<times> world" where
  "conversation_findMany pid uid w =
     (map (\<lambda>c. (c,
                take 1 (order_desc (tie_messages w) message_createdAt (messages_of (conversation_id c) w)),
                length (messages_of (conversation_id c) w)))
        (order_desc (tie_conversations w) conversation_updatedAt
           (filter (\<lambda>c. conversation_projectId c = pid \<and> conversation_userId c = uid)
              (conversations w))),
      emit Conversation_findMany w)"

text \<open>\<^verbatim>\<open>prisma.conversation.create({ data: { projectId, userId } })\<close>\<close>

definition conversation_create :: "string \<Rightarrow> string \<Rightarrow> world \<Rightarrow> conversation \<times> world" where
  "conversation_create pid uid w =
     (let row = \<lparr>conversation_id = next_id w, conversation_createdAt = clock w,
                 conversation_updatedAt = clock w, conversation_userId = uid,
                 conversation_projectId = pid\<rparr>
      in (row, emit Conversation_create
                 (w\<lparr>conversations := conversations w @ [row], next_id := Suc (next_id w)\<rparr>)))"

text \<open>
  \<^verbatim>\<open>prisma.conversation.update({ where: { id }, data: { updatedAt: new Date() } })\<close>:
  rejected when no row has the identifier.
\<close>

definition conversation_update :: "ident \<Rightarrow> world \<Rightarrow> bool \<times> world" where
  "conversation_update cid w =
     (if \<exists>c \<in> set (conversations w). conversation_id c = cid
      then (True, emit Conversation_update
                    (w\<lparr>conversations :=
                         map (\<lambda>c. if conversation_id c = cid
                                  then c\<lparr>conversation_updatedAt := clock w\<rparr> else c)
                           (conversations w)\<rparr>))
      else (False, emit Conversation_update w))"

text \<open>
  \<^verbatim>\<open>prisma.message.create({ data: { conversationId, sender, content } })\<close>: rejected by
  the foreign key when the conversation does not exist.
\<close>

definition message_create ::
  "ident \<Rightarrow> MessageSender \<Rightarrow> string \<Rightarrow> world \<Rightarrow> message option \<times> world" where
  "message_create cid sender content w =
     (if \<exists>c \<in> set (conversations w). conversation_id c = cid
      then (let row = \<lparr>message_id = next_id w, message_createdAt = clock w,
                        message_conversationId = cid, message_sender = sender,
                        message_content = content\<rparr>
            in (Some row, emit Message_create
                            (w\<lparr>messages := messages w @ [row], next_id := Suc (next_id w)\<rparr>)))
      else (None, emit Message_create w))"

text \<open>
  \<^verbatim>\<open>prisma.message.findMany({ where: { conversationId }, orderBy: { createdAt: "asc" }, take })\<close>
\<close>

definition message_findMany :: "ident \<Rightarrow> nat \<Rightarrow> world \<Rightarrow> message list \<times> world" where
  "message_findMany cid n w =
     (take n (order_asc (tie_messages w) message_createdAt (messages_of cid w)), emit Message_findMany w)"

text \<open>
  \<^verbatim>\<open>prisma.llmApiKeys.findFirst({ where: { projectId }, orderBy: { createdAt: "desc" } })\<close>
\<close>

definition llmApiKeys_findFirst :: "string \<Rightarrow> world \<Rightarrow> llm_api_key option \<times> world" where
  "llmApiKeys_findFirst pid w =
     ((case order_desc (tie_llmApiKeys w) key_createdAt (filter (\<lambda>k. key_projectId k = pid) (llmApiKeys w)) of
         [] \<Rightarrow> None
       | k # _ \<Rightarrow> Some k),
      emit LlmApiKeys_findFirst w)"

section \<open>The conversations router\<close>

subsection \<open>Fixed texts\<close>

text \<open>
  The glyphs of the two templates that are not ASCII, as the bytes the source file
  holds at those places.
\<close>

definition glyph_gear :: string where
  "glyph_gear = map char_of [0xE2, 0x80, 0x9A, 0xC3, 0xB6, 0xC3, 0xB4, 0xC3, 0x94,
                             0xE2, 0x88, 0x8F, 0xC3, 0xA8 :: nat]"

definition glyph_arrow :: string where
  "glyph_arrow = map char_of [0xE2, 0x80, 0x9A, 0xC3, 0x9C, 0xC3, 0xAD :: nat]"

definition glyph_key :: string where
  "glyph_key = map char_of [0xEF, 0xA3, 0xBF, 0xC3, 0xBC, 0xC3, 0xAE, 0xC3, 0xAB :: nat]"

definition glyph_bullet :: string where
  "glyph_bullet = map char_of [0xE2, 0x80, 0x9A, 0xC3, 0x84, 0xC2, 0xA2 :: nat]"

definition glyph_robot :: string where
  "glyph_robot = map char_of [0xEF, 0xA3, 0xBF, 0xC3, 0xBC, 0xC2, 0xA7, 0xC3, 0xB1 :: nat]"

definition system_instruction :: string where
  "system_instruction =
     ''You are a helpful AI assistant integrated into Langfuse. Provide clear, helpful responses to user questions. Keep your responses concise and relevant.''"

definition no_text_reply :: string where
  "no_text_reply =
     ''I apologize, but I couldn't generate a proper response. Please try again.''"

text \<open>\<^verbatim>\<open>error instanceof Error ? error.message : "Unknown error"\<close>\<close>

definition error_text :: "thrown \<Rightarrow> string" where
  "error_text error = (case error of JsError m \<Rightarrow> m | NonError \<Rightarrow> ''Unknown error'')"

definition error_reply :: "thrown \<Rightarrow> string" where
  \<open>error_reply error =
     ''I'm sorry, but I encountered an error while processing your request. The error was: ''
     @ error_text error
     @ ''\<newline>\<newline>Please check your LLM API configuration in '' @ glyph_gear
     @ '' Settings '' @ glyph_arrow @ '' "LLM Connections" and try again.''\<close>

definition onboarding_reply :: "string \<Rightarrow> string" where
  \<open>onboarding_reply content =
     ''Hello! I received your message: "'' @ content @ ''".\<newline>''
     @ ''\<newline>''
     @ ''To enable AI-powered responses:\<newline>''
     @ ''\<newline>''
     @ glyph_key @ '' **Step 1: Add LLM API Key**\<newline>''
     @ ''1. Go to '' @ glyph_gear @ '' Settings '' @ glyph_arrow @ '' "LLM Connections"\<newline>''
     @ ''2. Click "Add New API Key"\<newline>''
     @ ''3. Choose your provider:\<newline>''
     @ ''   '' @ glyph_bullet @ '' **OpenAI**: Get key from https://platform.openai.com/api-keys\<newline>''
     @ ''   '' @ glyph_bullet @ '' **Google AI**: Get key from https://aistudio.google.com/app/apikey\<newline>''
     @ ''\<newline>''
     @ glyph_robot @ '' **Step 2: Configure Model**\<newline>''
     @ glyph_bullet @ '' Select your preferred model (e.g., gpt-3.5-turbo, gemini-pro)\<newline>''
     @ glyph_bullet @ '' Save the configuration\<newline>''
     @ ''\<newline>''
     @ ''Once configured, I'll provide intelligent AI responses to all your questions!''\<close>

subsection \<open>Input schemas\<close>

record send_input =
  in_projectId :: string
  in_conversationId :: ident
  in_content :: string

text \<open>\<^verbatim>\<open>content: z.string().min(1)\<close>\<close>

definition SendMessageSchema :: "send_input \<Rightarrow> bool" where
  "SendMessageSchema input \<longleftrightarrow> 1 \<le> length (in_content input)"

subsection \<open>\<^verbatim>\<open>all\<close>\<close>

record conversation_summary =
  sum_id :: ident
  sum_createdAt :: timestamp
  sum_updatedAt :: timestamp
  sum_messageCount :: nat
  sum_lastMessage :: "message option"

text \<open>\<^verbatim>\<open>conv.messages[0] || null\<close>: \<open>None\<close> is \<^verbatim>\<open>null\<close>.\<close>

definition summary :: "conversation \<times> message list \<times> nat \<Rightarrow> conversation_summary" where
  "summary row =
     (case row of (conv, msgs, cnt) \<Rightarrow>
        \<lparr>sum_id = conversation_id conv,
         sum_createdAt = conversation_createdAt conv,
         sum_updatedAt = conversation_updatedAt conv,
         sum_messageCount = cnt,
         sum_lastMessage = (case msgs of [] \<Rightarrow> None | m # _ \<Rightarrow> Some m)\<rparr>)"

definition all_conversations ::
  "string \<Rightarrow> string \<Rightarrow> world \<Rightarrow> conversation_summary list \<times> world" where
  "all_conversations userId projectId w =
     (case conversation_findMany projectId userId w of
        (convs, w') \<Rightarrow> (map summary convs, w'))"

subsection \<open>\<^verbatim>\<open>byId\<close>\<close>

definition byId ::
  "string \<Rightarrow> string \<Rightarrow> ident \<Rightarrow> world
     \<Rightarrow> (trpc_error + conversation \<times> message list) \<times> world" where
  "byId userId projectId conversationId w =
     (case conversation_findFirst conversationId projectId userId w of
        (None, w') \<Rightarrow> (Inl NOT_FOUND, w')
      | (Some conv, w') \<Rightarrow>
          (Inr (conv, order_asc (tie_messages w) message_createdAt (messages_of (conversation_id conv) w)), w'))"

subsection \<open>\<^verbatim>\<open>create\<close>\<close>

definition create :: "string \<Rightarrow> string \<Rightarrow> world \<Rightarrow> conversation \<times> world" where
  "create userId projectId w = conversation_create projectId userId w"

subsection \<open>\<^verbatim>\<open>sendMessage\<close>\<close>

definition history_turn :: "message \<Rightarrow> ChatMessage" where
  "history_turn msg =
     (if message_sender msg = USER
      then \<lparr>chat_type = Type_User, chat_role = Role_User, chat_content = message_content msg\<rparr>
      else \<lparr>chat_type = Type_AssistantText, chat_role = Role_Assistant,
            chat_content = message_content msg\<rparr>)"

definition user_turn :: "string \<Rightarrow> ChatMessage" where
  "user_turn content = \<lparr>chat_type = Type_User, chat_role = Role_User, chat_content = content\<rparr>"

definition build_messages :: "message list \<Rightarrow> string \<Rightarrow> ChatMessage list" where
  "build_messages conversationHistory content =
     [\<lparr>chat_type = Type_System, chat_role = Role_System, chat_content = system_instruction\<rparr>]
     @ map history_turn conversationHistory
     @ [user_turn content]"

text \<open>\<^verbatim>\<open>parsedKey.data.baseURL || undefined\<close>\<close>

definition or_undefined :: "string option \<Rightarrow> string option" where
  "or_undefined v = (case v of None \<Rightarrow> None | Some s \<Rightarrow> if s = [] then None else Some s)"

definition build_request ::
  "llm_api_key \<Rightarrow> string \<Rightarrow> string option \<Rightarrow> ChatMessage list \<Rightarrow> llm_request" where
  "build_request parsedKey apiKey extraHeaders msgs =
     \<lparr>req_streaming = False,
      req_apiKey = apiKey,
      req_extraHeaders = extraHeaders,
      req_baseURL = or_undefined (key_baseURL parsedKey),
      req_messages = msgs,
      req_modelParams =
        \<lparr>mp_provider = key_provider parsedKey, mp_adapter = key_adapter parsedKey,
         mp_model = ''gpt-3.5-turbo'', mp_temperature = 7 / 10, mp_max_tokens = 1000\<rparr>,
      req_config = key_config parsedKey,
      req_maxRetries = 1\<rparr>"

text \<open>
  The body of the \<^verbatim>\<open>try\<close>: \<open>Inl\<close> is the value that reaches \<^verbatim>\<open>catch\<close>, \<open>Inr\<close> the
  assistant response; the second component is the calls made on the way. The
  arguments of the call are evaluated in the order written.
\<close>

definition try_completion ::
  "env \<Rightarrow> llm_api_key \<Rightarrow> message list \<Rightarrow> string \<Rightarrow> (thrown + string) \<times> event list" where
  "try_completion env llmApiKey conversationHistory content =
     (case safeParse env llmApiKey of
        Inl msg \<Rightarrow> (Inl (JsError (''Invalid API key configuration: '' @ msg)), [])
      | Inr parsedKey \<Rightarrow>
          (case decrypt env (key_secretKey parsedKey) of
             Inl error \<Rightarrow> (Inl error, [])
           | Inr apiKey \<Rightarrow>
               (case decryptAndParseExtraHeaders env (key_extraHeaders parsedKey) of
                  Inl error \<Rightarrow> (Inl error, [])
                | Inr extraHeaders \<Rightarrow>
                    (let request = build_request parsedKey apiKey extraHeaders
                                     (build_messages conversationHistory content)
                     in case fetchLLMCompletion env request of
                          Inl error \<Rightarrow> (Inl error, [FetchLLMCompletion request])
                        | Inr (Text s) \<Rightarrow> (Inr s, [FetchLLMCompletion request])
                        | Inr NonText \<Rightarrow> (Inr no_text_reply, [FetchLLMCompletion request])))))"

definition assistant_response ::
  "env \<Rightarrow> llm_api_key option \<Rightarrow> message list \<Rightarrow> string \<Rightarrow> string \<times> event list" where
  "assistant_response env llmApiKey conversationHistory content =
     (case llmApiKey of
        Some k \<Rightarrow>
          (case try_completion env k conversationHistory content of
             (Inr response, evs) \<Rightarrow> (response, evs)
           | (Inl error, evs) \<Rightarrow> (error_reply error, evs))
      | None \<Rightarrow> (onboarding_reply content, []))"

text \<open>The resolver, entered once the input has passed the schema.\<close>

definition sendMessage_resolver ::
  "env \<Rightarrow> string \<Rightarrow> send_input \<Rightarrow> world \<Rightarrow> (trpc_error + message \<times> message) \<times> world" where
  "sendMessage_resolver env userId input w0 =
     (case conversation_findFirst (in_conversationId input) (in_projectId input) userId w0 of
        (None, w1) \<Rightarrow> (Inl NOT_FOUND, w1)
      | (Some conversation, w1) \<Rightarrow>
     (case message_create (in_conversationId input) USER (in_content input)
             (advance (elapsed_user env) w1) of
        (None, w2) \<Rightarrow> (Inl INTERNAL_SERVER_ERROR, w2)
      | (Some userMessage, w2) \<Rightarrow>
     (case message_findMany (in_conversationId input) 20 w2 of
        (conversationHistory, w3) \<Rightarrow>
     (case llmApiKeys_findFirst (in_projectId input) w3 of
        (llmApiKey, w4) \<Rightarrow>
     (case assistant_response env llmApiKey conversationHistory (in_content input) of
        (assistantResponse, calls) \<Rightarrow>
     (case message_create (in_conversationId input) ASSISTANT assistantResponse
             (advance (elapsed_assistant env) (w4\<lparr>trace := trace w4 @ calls\<rparr>)) of
        (None, w6) \<Rightarrow> (Inl INTERNAL_SERVER_ERROR, w6)
      | (Some assistantMessage, w6) \<Rightarrow>
     (case conversation_update (in_conversationId input) (advance (elapsed_update env) w6) of
        (False, w7) \<Rightarrow> (Inl INTERNAL_SERVER_ERROR, w7)
      | (True, w7) \<Rightarrow> (Inr (userMessage, assistantMessage), w7))))))))"

text \<open>
  Modelled from the spec: the procedure builder (\<^verbatim>\<open>protectedProjectProcedure\<close> and its
  \<^verbatim>\<open>.input\<close>) is not among the sources. Section 7 of the specification: an input
  that fails the schema is rejected by input-schema validation before reaching
  business logic, surfaced as a generic bad-request condition.
\<close>

definition with_input ::
  "('i \<Rightarrow> bool) \<Rightarrow> ('i \<Rightarrow> world \<Rightarrow> (trpc_error + 'a) \<times> world)
     \<Rightarrow> 'i \<Rightarrow> world \<Rightarrow> (trpc_error + 'a) \<times> world" where
  "with_input schema resolver input w =
     (if schema input then resolver input w else (Inl BAD_REQUEST, w))"

text \<open>The procedure: \<^verbatim>\<open>.input(SendMessageSchema).mutation(...)\<close>.\<close>

definition sendMessage ::
  "env \<Rightarrow> string \<Rightarrow> send_input \<Rightarrow> world \<Rightarrow> (trpc_error + message \<times> message) \<times> world" where
  "sendMessage env userId input w =
     with_input SendMessageSchema (sendMessage_resolver env userId) input w"

section \<open>Well-formed stores\<close>

text \<open>
  What the persistence layer and the clock guarantee of any store the router meets:
  identifiers are unique and were drawn from the counter, every message belongs to a
  stored conversation, and no stored timestamp lies in the future.
\<close>

definition wf :: "world \<Rightarrow> bool" where
  "wf w \<longleftrightarrow>
     distinct (map conversation_id (conversations w)) \<and>
     distinct (map message_id (messages w)) \<and>
     (\<forall>c \<in> set (conversations w).
        conversation_id c < next_id w \<and> conversation_createdAt c \<le> clock w
        \<and> conversation_updatedAt c \<le> clock w) \<and>
     (\<forall>m \<in> set (messages w).
        message_id m < next_id w \<and> message_createdAt m \<le> clock w
        \<and> (\<exists>c \<in> set (conversations w). conversation_id c = message_conversationId m))"

definition empty_world :: world where
  "empty_world = \<lparr>conversations = [], messages = [], llmApiKeys = [], clock = 0,
                  next_id = 0, trace = [],
                  tie_conversations = (\<lambda>c. 0), tie_messages = (\<lambda>m. 0),
                  tie_llmApiKeys = (\<lambda>k. 0)\<rparr>"

section \<open>Auxiliary definitions\<close>

text \<open>The requests that reached the completion provider, in the order of the calls.\<close>

definition completion_requests :: "world \<Rightarrow> llm_request list" where
  "completion_requests w =
     concat (map (\<lambda>e. case e of FetchLLMCompletion r \<Rightarrow> [r] | _ \<Rightarrow> []) (trace w))"

text \<open>The entry \<^verbatim>\<open>all\<close> returns for one conversation of the store.\<close>

definition summary_of :: "world \<Rightarrow> conversation \<Rightarrow> conversation_summary" where
  "summary_of w c =
     summary (c, take 1 (order_desc (tie_messages w) message_createdAt (messages_of (conversation_id c) w)),
              length (messages_of (conversation_id c) w))"

subsection \<open>Example stores\<close>

text \<open>
  Project \<open>p\<close> with a conversation of user \<open>u\<close> holding \<open>n\<close> messages (the \<open>i\<close>-th
  created at time \<open>i\<close>, with \<open>i\<close> letters as its content), an empty conversation of
  user \<open>v\<close>, and one credential.
\<close>

definition ex_conv :: conversation where
  "ex_conv = \<lparr>conversation_id = 0, conversation_createdAt = 0, conversation_updatedAt = 0,
               conversation_userId = ''u'', conversation_projectId = ''p''\<rparr>"

definition ex_conv_other :: conversation where
  "ex_conv_other = \<lparr>conversation_id = 1, conversation_createdAt = 1,
                     conversation_updatedAt = 1, conversation_userId = ''v'',
                     conversation_projectId = ''p''\<rparr>"

definition ex_msg :: "nat \<Rightarrow> message" where
  "ex_msg i = \<lparr>message_id = i, message_createdAt = i, message_conversationId = 0,
                message_sender = (if even i then USER else ASSISTANT),
                message_content = replicate i (CHR ''a'')\<rparr>"

definition ex_key :: llm_api_key where
  "ex_key = \<lparr>key_projectId = ''p'', key_createdAt = 0, key_provider = ''openai'',
              key_adapter = ''openai'', key_secretKey = ''secret'', key_extraHeaders = None,
              key_baseURL = None, key_config = None\<rparr>"

definition ex_world :: "nat \<Rightarrow> world" where
  "ex_world n = \<lparr>conversations = [ex_conv, ex_conv_other],
                  messages = map ex_msg [2..<n + 2],
                  llmApiKeys = [ex_key], clock = n + 2, next_id = n + 2, trace = [],
                  tie_conversations = (\<lambda>c. 0), tie_messages = (\<lambda>m. 0),
                  tie_llmApiKeys = (\<lambda>k. 0)\<rparr>"

definition ex_world_no_key :: "nat \<Rightarrow> world" where
  "ex_world_no_key n = (ex_world n)\<lparr>llmApiKeys := []\<rparr>"

definition ex_input :: "string \<Rightarrow> send_input" where
  "ex_input content = \<lparr>in_projectId = ''p'', in_conversationId = 0, in_content = content\<rparr>"

definition ex_listing :: "string \<Rightarrow> conversation_summary list" where
  "ex_listing userId = fst (all_conversations userId ''p'' (ex_world 2))"

text \<open>The rows a send of \<open>new\<close> adds to \<open>ex_world 20\<close>.\<close>

definition ex_sent :: message where
  "ex_sent = \<lparr>message_id = 22, message_createdAt = 23, message_conversationId = 0,
               message_sender = USER, message_content = ''new''\<rparr>"

definition ex_answer :: message where
  "ex_answer = \<lparr>message_id = 23, message_createdAt = 24, message_conversationId = 0,
                 message_sender = ASSISTANT, message_content = ''ok''\<rparr>"

text \<open>A provider that answers \<open>ok\<close>, and one that rejects every call.\<close>

definition ex_env :: env where
  "ex_env = \<lparr>safeParse = Inr, decrypt = Inr, decryptAndParseExtraHeaders = Inr,
              fetchLLMCompletion = (\<lambda>r. Inr (Text ''ok'')),
              elapsed_user = 1, elapsed_assistant = 1, elapsed_update = 1\<rparr>"

text \<open>
  A store in which the newest message was created at the very time of the clock, and
  whose database returns, among messages of equal creation time, those of the user
  first; and a provider environment in which no time passes before the user message
  is stored.
\<close>

definition ex_world_tie :: world where
  "ex_world_tie = (ex_world 2)\<lparr>clock := 3,
                    tie_messages := (\<lambda>m. if message_sender m = USER then 0 else 1)\<rparr>"

definition ex_env_instant :: env where
  "ex_env_instant = ex_env\<lparr>elapsed_user := 0\<rparr>"


section \<open>Properties of the queries\<close>

lemma mset_order_asc: "mset (order_asc t k xs) = mset xs"
  by (simp add: order_asc_def)

lemma set_order_asc: "set (order_asc t k xs) = set xs"
  by (simp add: order_asc_def)

lemma length_order_asc: "length (order_asc t k xs) = length xs"
  by (simp add: order_asc_def)

lemma sorted_order_asc: "sorted (map k (order_asc t k xs))"
  by (simp add: order_asc_def)

lemma mset_order_desc: "mset (order_desc t k xs) = mset xs"
  by (simp add: order_desc_def)

lemma set_order_desc: "set (order_desc t k xs) = set xs"
  by (simp add: order_desc_def)

lemma sorted_order_desc: "sorted_wrt (\<lambda>a b. k b \<le> k a) (order_desc t k xs)"
proof -
  have "sorted (map k (sort_key k (sort_key t xs)))" by simp
  then have "sorted_wrt (\<lambda>a b. k a \<le> k b) (sort_key k (sort_key t xs))"
    by (simp add: sorted_map)
  then show ?thesis
    unfolding order_desc_def by (simp add: sorted_wrt_rev)
qed

lemma order_desc_Nil_iff: "order_desc t k xs = [] \<longleftrightarrow> xs = []"
  by (metis mset_order_desc mset_zero_iff)

lemma order_desc_head_max:
  assumes "order_desc t k xs = m # ms" and "x \<in> set xs"
  shows "k x \<le> k m"
proof -
  have "sorted_wrt (\<lambda>a b. k b \<le> k a) (m # ms)"
    using sorted_order_desc [of k t xs] assms(1) by simp
  moreover have "x \<in> set (m # ms)"
    using assms set_order_desc [of t k xs] by simp
  ultimately show ?thesis by auto
qed

text \<open>Every answer sorted by the key is the answer for some ranking of the rows.\<close>

lemma order_asc_any_answer:
  assumes perm: "mset ys = mset xs" and sorted: "sorted (map k ys)" and dist: "distinct xs"
  shows "\<exists>tie. order_asc tie k xs = ys"
proof -
  define tie where "tie x = (THE i. i < length ys \<and> ys ! i = x)" for x
  have d: "distinct ys"
    using perm dist by (metis mset_eq_imp_distinct_iff)
  have at: "tie (ys ! i) = i" if "i < length ys" for i
    unfolding tie_def using that d by (auto simp: nth_eq_iff_index_eq intro!: the_equality)
  have ranks: "map tie ys = [0..<length ys]"
    by (rule nth_equalityI) (simp_all add: at)
  have "sorted (map tie ys)"
    unfolding ranks by simp
  moreover have "distinct (map tie ys)"
    unfolding ranks by simp
  then have "inj_on tie (set ys)"
    by (simp add: distinct_map)
  then have "inj_on tie (set xs)"
    using perm by (metis mset_eq_setD)
  ultimately have "sort_key tie xs = ys"
    using perm by (intro sort_key_inj_key_eq) simp_all
  moreover have "sort_key k ys = ys"
    using sorted by (rule sort_key_id_if_sorted)
  ultimately have "order_asc tie k xs = ys"
    by (simp add: order_asc_def)
  then show ?thesis by blast
qed

lemma sorted_nothing_later:
  assumes "sorted (map k (ys @ x # zs))" and "\<forall>m \<in> set zs. k m < k x"
  shows "zs = []"
proof (cases zs)
  case Nil
  then show ?thesis .
next
  case (Cons z zs')
  then have "k x \<le> k z"
    using assms(1) by (simp add: sorted_append)
  moreover have "k z < k x"
    using assms(2) Cons by simp
  ultimately show ?thesis by simp
qed

lemma conversation_findFirst_None:
  "\<not> (\<exists>c \<in> set (conversations w). conversation_id c = cid \<and> conversation_projectId c = pid
          \<and> conversation_userId c = uid) \<Longrightarrow>
   conversation_findFirst cid pid uid w = (None, emit Conversation_findFirst w)"
  by (auto simp: conversation_findFirst_def find_None_iff)

lemma conversation_findFirst_Some:
  assumes "c \<in> set (conversations w)" "conversation_id c = cid"
    "conversation_projectId c = pid" "conversation_userId c = uid"
  shows "\<exists>c'. conversation_findFirst cid pid uid w = (Some c', emit Conversation_findFirst w)
           \<and> c' \<in> set (conversations w) \<and> conversation_id c' = cid
           \<and> conversation_projectId c' = pid \<and> conversation_userId c' = uid"
proof (cases "find (\<lambda>c. conversation_id c = cid \<and> conversation_projectId c = pid
                 \<and> conversation_userId c = uid) (conversations w)")
  case None
  then show ?thesis using assms by (auto simp: find_None_iff)
next
  case (Some c')
  then show ?thesis
    by (auto simp: conversation_findFirst_def find_Some_iff)
qed

lemma llmApiKeys_findFirst_None:
  "\<forall>k \<in> set (llmApiKeys w). key_projectId k \<noteq> pid \<Longrightarrow>
   fst (llmApiKeys_findFirst pid w) = None"
proof -
  assume "\<forall>k \<in> set (llmApiKeys w). key_projectId k \<noteq> pid"
  then have "filter (\<lambda>k. key_projectId k = pid) (llmApiKeys w) = []"
    by (simp add: filter_empty_conv)
  then show ?thesis
    by (simp add: llmApiKeys_findFirst_def order_desc_def)
qed

section \<open>Conversation listing\<close>

lemma fst_all_conversations:
  "fst (all_conversations userId projectId w) =
     map (summary_of w)
       (order_desc (tie_conversations w) conversation_updatedAt
          (filter (\<lambda>c. conversation_projectId c = projectId \<and> conversation_userId c = userId)
             (conversations w)))"
  by (simp add: all_conversations_def conversation_findMany_def summary_of_def)

lemma summary_of_fields:
  "sum_id (summary_of w c) = conversation_id c"
  "sum_createdAt (summary_of w c) = conversation_createdAt c"
  "sum_updatedAt (summary_of w c) = conversation_updatedAt c"
  "sum_messageCount (summary_of w c) = length (messages_of (conversation_id c) w)"
  by (simp_all add: summary_of_def summary_def)

lemma summary_of_lastMessage_None:
  "sum_lastMessage (summary_of w c) = None \<longleftrightarrow> messages_of (conversation_id c) w = []"
proof (cases "order_desc (tie_messages w) message_createdAt (messages_of (conversation_id c) w)")
  case Nil
  then have "messages_of (conversation_id c) w = []"
    by (simp add: order_desc_Nil_iff)
  then show ?thesis
    by (simp add: summary_of_def summary_def order_desc_def)
next
  case (Cons m ms)
  then have "messages_of (conversation_id c) w \<noteq> []"
    using order_desc_Nil_iff [of "tie_messages w" message_createdAt "messages_of (conversation_id c) w"] by simp
  then show ?thesis using Cons by (simp add: summary_of_def summary_def)
qed

lemma summary_of_lastMessage_Some:
  assumes "sum_lastMessage (summary_of w c) = Some m"
  shows "m \<in> set (messages w) \<and> message_conversationId m = conversation_id c
         \<and> (\<forall>m' \<in> set (messages w). message_conversationId m' = conversation_id c
               \<longrightarrow> message_createdAt m' \<le> message_createdAt m)"
proof (cases "order_desc (tie_messages w) message_createdAt (messages_of (conversation_id c) w)")
  case Nil
  then show ?thesis using assms by (simp add: summary_of_def summary_def)
next
  case (Cons m0 ms)
  then have m0: "m0 = m" using assms by (simp add: summary_of_def summary_def)
  have "m \<in> set (order_desc (tie_messages w) message_createdAt (messages_of (conversation_id c) w))"
    using Cons m0 by simp
  then have "m \<in> set (messages_of (conversation_id c) w)"
    by (simp add: set_order_desc)
  moreover have "message_createdAt m' \<le> message_createdAt m"
    if "m' \<in> set (messages_of (conversation_id c) w)" for m'
    using order_desc_head_max [OF Cons that] m0 by simp
  ultimately show ?thesis by (simp add: messages_of_def)
qed

text \<open>
  Claim C7. For every caller and project, \<^verbatim>\<open>all\<close> returns exactly the conversations
  of that caller in that project (identifier and both timestamps of each, as a
  multiset), ordered by update timestamp descending; each entry carries the number of
  messages of its conversation, and as last message a message of that conversation
  that none of its messages is newer than (no last message exactly when the
  conversation has no message).
\<close>

theorem all_conversations_spec:
  "mset (map (\<lambda>r. (sum_id r, sum_createdAt r, sum_updatedAt r))
          (fst (all_conversations userId projectId w)))
     = mset (map (\<lambda>c. (conversation_id c, conversation_createdAt c, conversation_updatedAt c))
          (filter (\<lambda>c. conversation_projectId c = projectId \<and> conversation_userId c = userId)
             (conversations w)))
   \<and> sorted_wrt (\<lambda>a b. sum_updatedAt b \<le> sum_updatedAt a)
        (fst (all_conversations userId projectId w))
   \<and> (\<forall>r \<in> set (fst (all_conversations userId projectId w)).
        sum_messageCount r
          = length (filter (\<lambda>m. message_conversationId m = sum_id r) (messages w))
        \<and> (case sum_lastMessage r of
             None \<Rightarrow> \<forall>m \<in> set (messages w). message_conversationId m \<noteq> sum_id r
           | Some m \<Rightarrow>
               m \<in> set (messages w) \<and> message_conversationId m = sum_id r
               \<and> (\<forall>m' \<in> set (messages w). message_conversationId m' = sum_id r
                     \<longrightarrow> message_createdAt m' \<le> message_createdAt m)))"
proof (intro conjI ballI)
  let ?own = "filter (\<lambda>c. conversation_projectId c = projectId \<and> conversation_userId c = userId)
                (conversations w)"
  let ?g = "\<lambda>c. (conversation_id c, conversation_createdAt c, conversation_updatedAt c)"
  have "map (\<lambda>r. (sum_id r, sum_createdAt r, sum_updatedAt r))
          (fst (all_conversations userId projectId w))
        = map ?g (order_desc (tie_conversations w) conversation_updatedAt ?own)"
    by (simp add: fst_all_conversations summary_of_fields comp_def)
  moreover have "mset (map ?g (order_desc (tie_conversations w) conversation_updatedAt ?own)) = mset (map ?g ?own)"
    by (simp add: mset_order_desc)
  ultimately show "mset (map (\<lambda>r. (sum_id r, sum_createdAt r, sum_updatedAt r))
          (fst (all_conversations userId projectId w))) = mset (map ?g ?own)"
    by simp
next
  show "sorted_wrt (\<lambda>a b. sum_updatedAt b \<le> sum_updatedAt a)
          (fst (all_conversations userId projectId w))"
    using sorted_order_desc [of conversation_updatedAt]
    by (simp add: fst_all_conversations sorted_wrt_map summary_of_fields)
next
  fix r assume "r \<in> set (fst (all_conversations userId projectId w))"
  then obtain c where r: "r = summary_of w c"
    by (auto simp: fst_all_conversations)
  show "sum_messageCount r
          = length (filter (\<lambda>m. message_conversationId m = sum_id r) (messages w))"
    by (simp add: r summary_of_fields messages_of_def)
next
  fix r assume "r \<in> set (fst (all_conversations userId projectId w))"
  then obtain c where r: "r = summary_of w c"
    by (auto simp: fst_all_conversations)
  show "case sum_lastMessage r of
             None \<Rightarrow> \<forall>m \<in> set (messages w). message_conversationId m \<noteq> sum_id r
           | Some m \<Rightarrow>
               m \<in> set (messages w) \<and> message_conversationId m = sum_id r
               \<and> (\<forall>m' \<in> set (messages w). message_conversationId m' = sum_id r
                     \<longrightarrow> message_createdAt m' \<le> message_createdAt m)"
  proof (cases "sum_lastMessage r")
    case None
    then have "messages_of (conversation_id c) w = []"
      using summary_of_lastMessage_None [of w c] r by simp
    then show ?thesis
      using None by (auto simp: r summary_of_fields messages_of_def filter_empty_conv)
  next
    case (Some m)
    then show ?thesis
      using summary_of_lastMessage_Some [of w c m] r by (simp add: summary_of_fields)
  qed
qed

theorem all_conversations_spec_witness:
  "hd (ex_listing ''u'') \<in> set (ex_listing ''u'')
   \<and> sum_messageCount (hd (ex_listing ''u''))
       = length (filter (\<lambda>m. message_conversationId m = sum_id (hd (ex_listing ''u'')))
                   (messages (ex_world 2)))
   \<and> sum_messageCount (hd (ex_listing ''u'')) = 2
   \<and> sum_lastMessage (hd (ex_listing ''u'')) = Some (ex_msg 3)
   \<and> sorted_wrt (\<lambda>a b. sum_updatedAt b \<le> sum_updatedAt a) (ex_listing ''u'')"
proof -
  note spec = all_conversations_spec [where userId = "''u''" and projectId = "''p''"
                and w = "ex_world 2", folded ex_listing_def]
  have mem: "hd (ex_listing ''u'') \<in> set (ex_listing ''u'')"
    by code_simp
  have two: "sum_messageCount (hd (ex_listing ''u'')) = 2"
    by code_simp
  have newest: "sum_lastMessage (hd (ex_listing ''u'')) = Some (ex_msg 3)"
    by code_simp
  from spec mem have "sum_messageCount (hd (ex_listing ''u''))
       = length (filter (\<lambda>m. message_conversationId m = sum_id (hd (ex_listing ''u'')))
                   (messages (ex_world 2)))"
    by blast
  moreover from spec have "sorted_wrt (\<lambda>a b. sum_updatedAt b \<le> sum_updatedAt a) (ex_listing ''u'')"
    by blast
  ultimately show ?thesis
    using mem two newest by blast
qed

text \<open>
  Claim C9. In the result of \<^verbatim>\<open>all\<close>, an entry whose conversation has no message has
  \<^verbatim>\<open>lastMessage\<close> null (\<open>None\<close>) and \<^verbatim>\<open>messageCount\<close> 0.
\<close>

theorem all_conversations_without_messages:
  "\<forall>r \<in> set (fst (all_conversations userId projectId w)).
     (\<forall>m \<in> set (messages w). message_conversationId m \<noteq> sum_id r) \<longrightarrow>
     sum_lastMessage r = None \<and> sum_messageCount r = 0"
proof (intro ballI impI)
  fix r
  assume "r \<in> set (fst (all_conversations userId projectId w))"
    and none: "\<forall>m \<in> set (messages w). message_conversationId m \<noteq> sum_id r"
  then obtain c where r: "r = summary_of w c"
    by (auto simp: fst_all_conversations)
  have "messages_of (conversation_id c) w = []"
    using none by (simp add: r summary_of_fields messages_of_def filter_empty_conv)
  then show "sum_lastMessage r = None \<and> sum_messageCount r = 0"
    using summary_of_lastMessage_None [of w c] by (simp add: r summary_of_fields)
qed

theorem all_conversations_without_messages_witness:
  "hd (ex_listing ''v'') \<in> set (ex_listing ''v'')
   \<and> \<not> (\<exists>m \<in> set (messages (ex_world 2)).
           message_conversationId m = sum_id (hd (ex_listing ''v'')))
   \<and> sum_lastMessage (hd (ex_listing ''v'')) = None
   \<and> sum_messageCount (hd (ex_listing ''v'')) = 0"
proof -
  note spec = all_conversations_without_messages [where userId = "''v''"
                and projectId = "''p''" and w = "ex_world 2", folded ex_listing_def]
  have mem: "hd (ex_listing ''v'') \<in> set (ex_listing ''v'')"
    by code_simp
  have none: "\<forall>m \<in> set (messages (ex_world 2)).
                 message_conversationId m \<noteq> sum_id (hd (ex_listing ''v''))"
    by code_simp
  from spec mem none
  have "sum_lastMessage (hd (ex_listing ''v'')) = None
        \<and> sum_messageCount (hd (ex_listing ''v'')) = 0"
    by blast
  then show ?thesis using mem none by blast
qed

section \<open>Conversation detail\<close>

text \<open>
  Claim C6. When a row matches the conversation identifier, the project and the
  caller, \<^verbatim>\<open>byId\<close> returns such a row together with all messages of the conversation
  in non-decreasing order of creation time; when no row matches (also when the
  conversation exists under another user or project), it fails with NOT_FOUND.
\<close>

theorem byId_spec:
  "((\<exists>c \<in> set (conversations w). conversation_id c = conversationId
       \<and> conversation_projectId c = projectId \<and> conversation_userId c = userId) \<longrightarrow>
      (\<exists>conv msgs. fst (byId userId projectId conversationId w) = Inr (conv, msgs)
         \<and> conv \<in> set (conversations w) \<and> conversation_id conv = conversationId
         \<and> conversation_projectId conv = projectId \<and> conversation_userId conv = userId
         \<and> mset msgs = filter_mset (\<lambda>m. message_conversationId m = conversationId)
                          (mset (messages w))
         \<and> sorted (map message_createdAt msgs)))
   \<and> (\<not> (\<exists>c \<in> set (conversations w). conversation_id c = conversationId
       \<and> conversation_projectId c = projectId \<and> conversation_userId c = userId) \<longrightarrow>
      fst (byId userId projectId conversationId w) = Inl NOT_FOUND)"
proof (intro conjI impI)
  assume "\<exists>c \<in> set (conversations w). conversation_id c = conversationId
       \<and> conversation_projectId c = projectId \<and> conversation_userId c = userId"
  then obtain c where "c \<in> set (conversations w)" "conversation_id c = conversationId"
    "conversation_projectId c = projectId" "conversation_userId c = userId" by blast
  from conversation_findFirst_Some [OF this]
  obtain c' where c': "conversation_findFirst conversationId projectId userId w
        = (Some c', emit Conversation_findFirst w)"
      "c' \<in> set (conversations w)" "conversation_id c' = conversationId"
      "conversation_projectId c' = projectId" "conversation_userId c' = userId"
    by blast
  have "fst (byId userId projectId conversationId w)
          = Inr (c', order_asc (tie_messages w) message_createdAt (messages_of conversationId w))"
    using c' by (simp add: byId_def)
  moreover have "mset (order_asc (tie_messages w) message_createdAt (messages_of conversationId w))
      = filter_mset (\<lambda>m. message_conversationId m = conversationId) (mset (messages w))"
    by (simp add: mset_order_asc messages_of_def)
  ultimately show "\<exists>conv msgs. fst (byId userId projectId conversationId w) = Inr (conv, msgs)
         \<and> conv \<in> set (conversations w) \<and> conversation_id conv = conversationId
         \<and> conversation_projectId conv = projectId \<and> conversation_userId conv = userId
         \<and> mset msgs = filter_mset (\<lambda>m. message_conversationId m = conversationId)
                          (mset (messages w))
         \<and> sorted (map message_createdAt msgs)"
    using c' sorted_order_asc [of message_createdAt] by blast
next
  assume "\<not> (\<exists>c \<in> set (conversations w). conversation_id c = conversationId
       \<and> conversation_projectId c = projectId \<and> conversation_userId c = userId)"
  from conversation_findFirst_None [OF this]
  show "fst (byId userId projectId conversationId w) = Inl NOT_FOUND"
    by (simp add: byId_def)
qed

theorem byId_spec_witness:
  "(\<exists>conv msgs. fst (byId ''u'' ''p'' 0 (ex_world 2)) = Inr (conv, msgs)
      \<and> conv \<in> set (conversations (ex_world 2)) \<and> conversation_userId conv = ''u''
      \<and> mset msgs = filter_mset (\<lambda>m. message_conversationId m = 0)
                       (mset (messages (ex_world 2)))
      \<and> sorted (map message_createdAt msgs))
   \<and> ex_conv \<in> set (conversations (ex_world 2))
   \<and> fst (byId ''v'' ''p'' 0 (ex_world 2)) = Inl NOT_FOUND
   \<and> fst (byId ''u'' ''q'' 0 (ex_world 2)) = Inl NOT_FOUND"
proof -
  have mine: "\<exists>c \<in> set (conversations (ex_world 2)). conversation_id c = 0
       \<and> conversation_projectId c = ''p'' \<and> conversation_userId c = ''u''"
    by (simp add: ex_world_def ex_conv_def ex_conv_other_def)
  have other_user: "\<not> (\<exists>c \<in> set (conversations (ex_world 2)). conversation_id c = 0
       \<and> conversation_projectId c = ''p'' \<and> conversation_userId c = ''v'')"
    by (simp add: ex_world_def ex_conv_def ex_conv_other_def)
  have other_project: "\<not> (\<exists>c \<in> set (conversations (ex_world 2)). conversation_id c = 0
       \<and> conversation_projectId c = ''q'' \<and> conversation_userId c = ''u'')"
    by (simp add: ex_world_def ex_conv_def ex_conv_other_def)
  have stored: "ex_conv \<in> set (conversations (ex_world 2))"
    by (simp add: ex_world_def)
  from mine byId_spec [where w = "ex_world 2" and conversationId = 0
                         and projectId = "''p''" and userId = "''u''"]
  have found: "\<exists>conv msgs. fst (byId ''u'' ''p'' 0 (ex_world 2)) = Inr (conv, msgs)
      \<and> conv \<in> set (conversations (ex_world 2)) \<and> conversation_userId conv = ''u''
      \<and> mset msgs = filter_mset (\<lambda>m. message_conversationId m = 0)
                       (mset (messages (ex_world 2)))
      \<and> sorted (map message_createdAt msgs)"
    by blast
  from other_user byId_spec [where w = "ex_world 2" and conversationId = 0
                         and projectId = "''p''" and userId = "''v''"]
  have a: "fst (byId ''v'' ''p'' 0 (ex_world 2)) = Inl NOT_FOUND"
    by blast
  from other_project byId_spec [where w = "ex_world 2" and conversationId = 0
                         and projectId = "''q''" and userId = "''u''"]
  have b: "fst (byId ''u'' ''q'' 0 (ex_world 2)) = Inl NOT_FOUND"
    by blast
  from found stored a b show ?thesis by blast
qed

section \<open>Message send and reply\<close>

lemma schema_nonempty: "in_content input \<noteq> [] \<Longrightarrow> SendMessageSchema input"
  by (cases "in_content input") (simp_all add: SendMessageSchema_def)

lemma surj_assistant_response:
  "\<exists>resp calls. assistant_response env key hist content = (resp, calls)"
  by (cases "assistant_response env key hist content") simp

text \<open>
  Claim C8. A send whose content is the empty string is rejected as BAD_REQUEST and
  leaves the store and the trace of calls as they were: no lookup, no row written.
\<close>

theorem sendMessage_empty_content_rejected:
  "in_content input = [] \<Longrightarrow> sendMessage env userId input w = (Inl BAD_REQUEST, w)"
  by (simp add: sendMessage_def with_input_def SendMessageSchema_def)

theorem sendMessage_empty_content_rejected_witness:
  "in_content (ex_input []) = []
   \<and> sendMessage ex_env ''u'' (ex_input []) (ex_world 2) = (Inl BAD_REQUEST, ex_world 2)"
proof -
  have empty: "in_content (ex_input []) = []"
    by (simp add: ex_input_def)
  from empty sendMessage_empty_content_rejected [OF empty]
  show ?thesis by blast
qed

text \<open>
  Claim C3. A send (of non-empty content) naming a conversation with no row matching
  the conversation identifier, the project and the caller fails with NOT_FOUND; the
  message table and the conversation table are unchanged, and the only call made is
  the lookup.
\<close>

theorem sendMessage_not_found:
  assumes "in_content input \<noteq> []"
    and "\<not> (\<exists>c \<in> set (conversations w).
             conversation_id c = in_conversationId input
             \<and> conversation_projectId c = in_projectId input
             \<and> conversation_userId c = userId)"
  shows "fst (sendMessage env userId input w) = Inl NOT_FOUND
       \<and> messages (snd (sendMessage env userId input w)) = messages w
       \<and> conversations (snd (sendMessage env userId input w)) = conversations w
       \<and> trace (snd (sendMessage env userId input w)) = trace w @ [Conversation_findFirst]"
proof -
  have "sendMessage env userId input w = (Inl NOT_FOUND, emit Conversation_findFirst w)"
    using schema_nonempty [OF assms(1)] conversation_findFirst_None [OF assms(2)]
    by (simp add: sendMessage_def with_input_def sendMessage_resolver_def)
  then show ?thesis by (simp add: emit_def)
qed

theorem sendMessage_not_found_witness:
  "in_content (ex_input ''ping'') \<noteq> []
   \<and> ex_conv \<in> set (conversations (ex_world 2))
   \<and> conversation_id ex_conv = in_conversationId (ex_input ''ping'')
   \<and> fst (sendMessage ex_env ''v'' (ex_input ''ping'') (ex_world 2)) = Inl NOT_FOUND
   \<and> messages (snd (sendMessage ex_env ''v'' (ex_input ''ping'') (ex_world 2)))
       = messages (ex_world 2)
   \<and> conversations (snd (sendMessage ex_env ''v'' (ex_input ''ping'') (ex_world 2)))
       = conversations (ex_world 2)
   \<and> trace (snd (sendMessage ex_env ''v'' (ex_input ''ping'') (ex_world 2)))
       = trace (ex_world 2) @ [Conversation_findFirst]"
proof -
  have content: "in_content (ex_input ''ping'') \<noteq> []"
    by (simp add: ex_input_def)
  have not_mine: "\<not> (\<exists>c \<in> set (conversations (ex_world 2)).
             conversation_id c = in_conversationId (ex_input ''ping'')
             \<and> conversation_projectId c = in_projectId (ex_input ''ping'')
             \<and> conversation_userId c = ''v'')"
    by (simp add: ex_world_def ex_conv_def ex_conv_other_def ex_input_def)
  have stored: "ex_conv \<in> set (conversations (ex_world 2))"
    by (simp add: ex_world_def)
  have same_id: "conversation_id ex_conv = in_conversationId (ex_input ''ping'')"
    by (simp add: ex_conv_def ex_input_def)
  from sendMessage_not_found [OF content not_mine, of ex_env] content stored same_id
  show ?thesis by blast
qed

text \<open>
  The run of \<^verbatim>\<open>sendMessage\<close> on a conversation the caller owns: the two rows it
  returns and the store it leaves.
\<close>

lemma sendMessage_resolver_found:
  assumes c: "c \<in> set (conversations w)" "conversation_id c = in_conversationId input"
    "conversation_projectId c = in_projectId input" "conversation_userId c = userId"
  and um: "um = \<lparr>message_id = next_id w, message_createdAt = clock w + elapsed_user env,
                  message_conversationId = in_conversationId input, message_sender = USER,
                  message_content = in_content input\<rparr>"
  and hist: "hist = take 20 (order_asc (tie_messages w) message_createdAt
                               (messages_of (in_conversationId input) w @ [um]))"
  and resp: "assistant_response env (fst (llmApiKeys_findFirst (in_projectId input) w))
               hist (in_content input) = (resp, calls)"
  and am: "am = \<lparr>message_id = Suc (next_id w),
                  message_createdAt = clock w + elapsed_user env + elapsed_assistant env,
                  message_conversationId = in_conversationId input,
                  message_sender = ASSISTANT, message_content = resp\<rparr>"
  shows "sendMessage_resolver env userId input w =
     (Inr (um, am),
      w\<lparr>conversations :=
           map (\<lambda>x. if conversation_id x = in_conversationId input
                    then x\<lparr>conversation_updatedAt :=
                             clock w + elapsed_user env + elapsed_assistant env
                               + elapsed_update env\<rparr>
                    else x) (conversations w),
         messages := messages w @ [um, am],
         clock := clock w + elapsed_user env + elapsed_assistant env + elapsed_update env,
         next_id := Suc (Suc (next_id w)),
         trace := trace w @ [Conversation_findFirst, Message_create, Message_findMany,
                             LlmApiKeys_findFirst] @ calls
                          @ [Message_create, Conversation_update]\<rparr>)"
proof -
  from conversation_findFirst_Some [OF c]
  obtain c' where c': "conversation_findFirst (in_conversationId input) (in_projectId input)
                         userId w = (Some c', emit Conversation_findFirst w)"
    by blast
  have ex: "\<exists>x \<in> set (conversations w). conversation_id x = in_conversationId input"
    using c by blast
  note resp' = resp [unfolded llmApiKeys_findFirst_def fst_conv]
  show ?thesis
    unfolding sendMessage_resolver_def c'
    using ex resp'
    by (simp add: message_create_def message_findMany_def messages_of_def
                  llmApiKeys_findFirst_def
                  conversation_update_def emit_def advance_def Let_def um hist am
                  add.assoc)
qed

lemma sendMessage_found:
  assumes content: "in_content input \<noteq> []"
  and c: "c \<in> set (conversations w)" "conversation_id c = in_conversationId input"
    "conversation_projectId c = in_projectId input" "conversation_userId c = userId"
  and um: "um = \<lparr>message_id = next_id w, message_createdAt = clock w + elapsed_user env,
                  message_conversationId = in_conversationId input, message_sender = USER,
                  message_content = in_content input\<rparr>"
  and hist: "hist = take 20 (order_asc (tie_messages w) message_createdAt
                               (messages_of (in_conversationId input) w @ [um]))"
  and resp: "assistant_response env (fst (llmApiKeys_findFirst (in_projectId input) w))
               hist (in_content input) = (resp, calls)"
  and am: "am = \<lparr>message_id = Suc (next_id w),
                  message_createdAt = clock w + elapsed_user env + elapsed_assistant env,
                  message_conversationId = in_conversationId input,
                  message_sender = ASSISTANT, message_content = resp\<rparr>"
  shows "sendMessage env userId input w =
     (Inr (um, am),
      w\<lparr>conversations :=
           map (\<lambda>x. if conversation_id x = in_conversationId input
                    then x\<lparr>conversation_updatedAt :=
                             clock w + elapsed_user env + elapsed_assistant env
                               + elapsed_update env\<rparr>
                    else x) (conversations w),
         messages := messages w @ [um, am],
         clock := clock w + elapsed_user env + elapsed_assistant env + elapsed_update env,
         next_id := Suc (Suc (next_id w)),
         trace := trace w @ [Conversation_findFirst, Message_create, Message_findMany,
                             LlmApiKeys_findFirst] @ calls
                          @ [Message_create, Conversation_update]\<rparr>)"
  using schema_nonempty [OF content] sendMessage_resolver_found [OF c um hist resp am]
  by (simp add: sendMessage_def with_input_def)

text \<open>
  Claim C2. In a well-formed store, a send of non-empty content to a conversation
  that exists and is owned by the caller in the stated project returns one USER
  message with the sent content and one ASSISTANT message, both of this conversation,
  with identifiers no stored message had, appended to the message table; and every
  row of the conversation afterwards has an update timestamp at least its old one.
\<close>

theorem sendMessage_returns_user_and_assistant:
  assumes wf: "wf w"
    and content: "in_content input \<noteq> []"
    and c: "c \<in> set (conversations w)" "conversation_id c = in_conversationId input"
      "conversation_projectId c = in_projectId input" "conversation_userId c = userId"
  shows "\<exists>um am w'. sendMessage env userId input w = (Inr (um, am), w')
     \<and> message_sender um = USER \<and> message_content um = in_content input
     \<and> message_sender am = ASSISTANT
     \<and> message_conversationId um = in_conversationId input
     \<and> message_conversationId am = in_conversationId input
     \<and> message_id um \<noteq> message_id am
     \<and> (\<forall>m \<in> set (messages w). message_id m \<noteq> message_id um \<and> message_id m \<noteq> message_id am)
     \<and> messages w' = messages w @ [um, am]
     \<and> (\<exists>c' \<in> set (conversations w'). conversation_id c' = in_conversationId input)
     \<and> (\<forall>c' \<in> set (conversations w'). conversation_id c' = in_conversationId input
            \<longrightarrow> conversation_updatedAt c \<le> conversation_updatedAt c')"
proof -
  define um where "um = \<lparr>message_id = next_id w, message_createdAt = clock w + elapsed_user env,
                  message_conversationId = in_conversationId input, message_sender = USER,
                  message_content = in_content input\<rparr>"
  define hist where "hist = take 20 (order_asc (tie_messages w) message_createdAt
                               (messages_of (in_conversationId input) w @ [um]))"
  obtain resp calls where resp:
    "assistant_response env (fst (llmApiKeys_findFirst (in_projectId input) w))
               hist (in_content input) = (resp, calls)"
    using surj_assistant_response by blast
  define am where "am = \<lparr>message_id = Suc (next_id w),
                  message_createdAt = clock w + elapsed_user env + elapsed_assistant env,
                  message_conversationId = in_conversationId input,
                  message_sender = ASSISTANT, message_content = resp\<rparr>"
  note run = sendMessage_found [OF content c um_def hist_def resp am_def]
  have fresh: "\<forall>m \<in> set (messages w). message_id m < next_id w"
    using wf by (simp add: wf_def)
  have old: "conversation_updatedAt c \<le> clock w"
    using wf c(1) by (simp add: wf_def)
  have ids: "\<forall>m \<in> set (messages w). message_id m \<noteq> message_id um \<and> message_id m \<noteq> message_id am"
    using fresh by (auto simp: um_def am_def)
  let ?touch = "\<lambda>x. if conversation_id x = in_conversationId input
                    then x\<lparr>conversation_updatedAt :=
                             clock w + elapsed_user env + elapsed_assistant env
                               + elapsed_update env\<rparr>
                    else x"
  have "?touch c \<in> set (map ?touch (conversations w))"
    using c(1) by simp
  moreover have "conversation_id (?touch c) = in_conversationId input"
    using c(2) by simp
  ultimately have ex: "\<exists>c' \<in> set (map ?touch (conversations w)).
      conversation_id c' = in_conversationId input"
    by blast
  have mono: "\<forall>c' \<in> set (map (\<lambda>x. if conversation_id x = in_conversationId input
                    then x\<lparr>conversation_updatedAt :=
                             clock w + elapsed_user env + elapsed_assistant env
                               + elapsed_update env\<rparr>
                    else x) (conversations w)). conversation_id c' = in_conversationId input
            \<longrightarrow> conversation_updatedAt c \<le> conversation_updatedAt c'"
    using old by auto
  show ?thesis
    unfolding run using ids ex mono
    by (simp add: um_def am_def)
qed

theorem sendMessage_returns_user_and_assistant_witness:
  "wf (ex_world 2) \<and> in_content (ex_input ''Hello'') \<noteq> []
   \<and> ex_conv \<in> set (conversations (ex_world 2))
   \<and> (\<exists>um am w'. sendMessage ex_env ''u'' (ex_input ''Hello'') (ex_world 2) = (Inr (um, am), w')
         \<and> message_sender um = USER \<and> message_content um = ''Hello''
         \<and> message_sender am = ASSISTANT
         \<and> messages w' = messages (ex_world 2) @ [um, am]
         \<and> (\<exists>c' \<in> set (conversations w'). conversation_id c' = 0))"
proof -
  have wf: "wf (ex_world 2)"
    by code_simp
  have content: "in_content (ex_input ''Hello'') \<noteq> []"
    by (simp add: ex_input_def)
  have c: "ex_conv \<in> set (conversations (ex_world 2))"
    "conversation_id ex_conv = in_conversationId (ex_input ''Hello'')"
    "conversation_projectId ex_conv = in_projectId (ex_input ''Hello'')"
    "conversation_userId ex_conv = ''u''"
    by (simp_all add: ex_world_def ex_conv_def ex_input_def)
  from sendMessage_returns_user_and_assistant [OF wf content c, of ex_env]
  obtain um am w' where
    "sendMessage ex_env ''u'' (ex_input ''Hello'') (ex_world 2) = (Inr (um, am), w')"
    "message_sender um = USER" "message_content um = in_content (ex_input ''Hello'')"
    "message_sender am = ASSISTANT" "messages w' = messages (ex_world 2) @ [um, am]"
    "\<exists>c' \<in> set (conversations w'). conversation_id c' = in_conversationId (ex_input ''Hello'')"
    by blast
  then have "\<exists>um am w'. sendMessage ex_env ''u'' (ex_input ''Hello'') (ex_world 2) = (Inr (um, am), w')
         \<and> message_sender um = USER \<and> message_content um = ''Hello''
         \<and> message_sender am = ASSISTANT
         \<and> messages w' = messages (ex_world 2) @ [um, am]
         \<and> (\<exists>c' \<in> set (conversations w'). conversation_id c' = 0)"
    by (simp add: ex_input_def)
  with wf content c(1) show ?thesis by blast
qed

text \<open>
  Claim C5. When the project has no credential, a send (of non-empty content, to a
  conversation the caller owns) makes no call to the provider; the assistant reply is
  the onboarding text, which starts with the greeting quoting the sent content, and
  the conversation has two messages more than before.
\<close>

theorem sendMessage_without_credential:
  assumes content: "in_content input \<noteq> []"
    and c: "c \<in> set (conversations w)" "conversation_id c = in_conversationId input"
      "conversation_projectId c = in_projectId input" "conversation_userId c = userId"
    and no_key: "\<forall>k \<in> set (llmApiKeys w). key_projectId k \<noteq> in_projectId input"
  shows \<open>\<exists>um am w'. sendMessage env userId input w = (Inr (um, am), w')
     \<and> message_sender am = ASSISTANT
     \<and> message_content am = onboarding_reply (in_content input)
     \<and> prefix (''Hello! I received your message: "'' @ in_content input @ ''".'')
          (message_content am)
     \<and> length (filter (\<lambda>m. message_conversationId m = in_conversationId input) (messages w'))
          = length (filter (\<lambda>m. message_conversationId m = in_conversationId input)
                      (messages w)) + 2
     \<and> trace w' = trace w @ [Conversation_findFirst, Message_create, Message_findMany,
                              LlmApiKeys_findFirst, Message_create, Conversation_update]\<close>
proof -
  define um where "um = \<lparr>message_id = next_id w, message_createdAt = clock w + elapsed_user env,
                  message_conversationId = in_conversationId input, message_sender = USER,
                  message_content = in_content input\<rparr>"
  define hist where "hist = take 20 (order_asc (tie_messages w) message_createdAt
                               (messages_of (in_conversationId input) w @ [um]))"
  define am where "am = \<lparr>message_id = Suc (next_id w),
                  message_createdAt = clock w + elapsed_user env + elapsed_assistant env,
                  message_conversationId = in_conversationId input,
                  message_sender = ASSISTANT,
                  message_content = onboarding_reply (in_content input)\<rparr>"
  have resp: "assistant_response env (fst (llmApiKeys_findFirst (in_projectId input) w))
               hist (in_content input) = (onboarding_reply (in_content input), [])"
    using llmApiKeys_findFirst_None [OF no_key] by (simp add: assistant_response_def)
  note run = sendMessage_found [OF content c um_def hist_def resp am_def]
  have head: \<open>prefix (''Hello! I received your message: "'' @ in_content input @ ''".'')
                (onboarding_reply (in_content input))\<close>
    by (simp add: onboarding_reply_def)
  show ?thesis
    unfolding run using head by (simp add: um_def am_def)
qed

theorem sendMessage_without_credential_witness:
  \<open>in_content (ex_input ''Hello'') \<noteq> []
   \<and> ex_conv \<in> set (conversations (ex_world_no_key 0))
   \<and> llmApiKeys (ex_world_no_key 0) = []
   \<and> (\<exists>um am w'. sendMessage ex_env ''u'' (ex_input ''Hello'') (ex_world_no_key 0)
                     = (Inr (um, am), w')
         \<and> prefix ''Hello! I received your message: "Hello".'' (message_content am)
         \<and> length (filter (\<lambda>m. message_conversationId m = 0) (messages w')) = 2
         \<and> completion_requests w' = [])\<close>
proof -
  have content: "in_content (ex_input ''Hello'') \<noteq> []"
    by (simp add: ex_input_def)
  have c: "ex_conv \<in> set (conversations (ex_world_no_key 0))"
    "conversation_id ex_conv = in_conversationId (ex_input ''Hello'')"
    "conversation_projectId ex_conv = in_projectId (ex_input ''Hello'')"
    "conversation_userId ex_conv = ''u''"
    by (simp_all add: ex_world_no_key_def ex_world_def ex_conv_def ex_input_def)
  have keys: "llmApiKeys (ex_world_no_key 0) = []"
    by (simp add: ex_world_no_key_def)
  then have no_key: "\<forall>k \<in> set (llmApiKeys (ex_world_no_key 0)).
                       key_projectId k \<noteq> in_projectId (ex_input ''Hello'')"
    by simp
  have start: "messages (ex_world_no_key 0) = []" "trace (ex_world_no_key 0) = []"
    by (simp_all add: ex_world_no_key_def ex_world_def)
  from sendMessage_without_credential [OF content c no_key, of ex_env]
  obtain um am w' where
    "sendMessage ex_env ''u'' (ex_input ''Hello'') (ex_world_no_key 0) = (Inr (um, am), w')"
    \<open>prefix (''Hello! I received your message: "'' @ in_content (ex_input ''Hello'') @ ''".'')
          (message_content am)\<close>
    "length (filter (\<lambda>m. message_conversationId m = in_conversationId (ex_input ''Hello''))
               (messages w'))
       = length (filter (\<lambda>m. message_conversationId m = in_conversationId (ex_input ''Hello''))
                   (messages (ex_world_no_key 0))) + 2"
    "trace w' = trace (ex_world_no_key 0)
                @ [Conversation_findFirst, Message_create, Message_findMany,
                   LlmApiKeys_findFirst, Message_create, Conversation_update]"
    by blast
  then have \<open>\<exists>um am w'. sendMessage ex_env ''u'' (ex_input ''Hello'') (ex_world_no_key 0)
                     = (Inr (um, am), w')
         \<and> prefix ''Hello! I received your message: "Hello".'' (message_content am)
         \<and> length (filter (\<lambda>m. message_conversationId m = 0) (messages w')) = 2
         \<and> completion_requests w' = []\<close>
    by (simp add: ex_input_def start completion_requests_def)
  with content c(1) keys show ?thesis by blast
qed



lemma try_completion_called:
  assumes "safeParse env k = Inr pk" "decrypt env (key_secretKey pk) = Inr apiKey"
    "decryptAndParseExtraHeaders env (key_extraHeaders pk) = Inr hdrs"
  shows "snd (try_completion env k hist content)
           = [FetchLLMCompletion (build_request pk apiKey hdrs (build_messages hist content))]"
  using assms
  by (simp add: try_completion_def Let_def split: sum.split completion.split)

lemma build_request_messages: "req_messages (build_request pk apiKey hdrs msgs) = msgs"
  by (simp add: build_request_def)

text \<open>
  Claim C10, as the code has it. When the conversation had fewer than 20 messages and
  the provider is reached (a credential exists, parses and decodes), the one request
  made carries the system instruction, then the history, which is the earlier
  messages and the stored new user message in an order sorted by creation time, then
  the new content once more as the appended user turn: the new content stands twice
  in the request. The stored user message is the last turn of the history whenever
  its creation time is strictly later than that of every earlier message of the
  conversation; among messages of equal creation time the query fixes no order.
\<close>

theorem sendMessage_repeats_new_content:
  assumes content: "in_content input \<noteq> []"
    and c: "c \<in> set (conversations w)" "conversation_id c = in_conversationId input"
      "conversation_projectId c = in_projectId input" "conversation_userId c = userId"
    and few: "length (filter (\<lambda>m. message_conversationId m = in_conversationId input)
                        (messages w)) < 20"
    and key: "fst (llmApiKeys_findFirst (in_projectId input) w) = Some k"
    and parse: "safeParse env k = Inr pk"
    and dec: "decrypt env (key_secretKey pk) = Inr apiKey"
    and hdr: "decryptAndParseExtraHeaders env (key_extraHeaders pk) = Inr hdrs"
  shows "\<exists>um am w' req earlier later.
       sendMessage env userId input w = (Inr (um, am), w')
     \<and> message_sender um = USER \<and> message_content um = in_content input
     \<and> message_createdAt um = clock w + elapsed_user env
     \<and> trace w' = trace w @ [Conversation_findFirst, Message_create, Message_findMany,
                              LlmApiKeys_findFirst, FetchLLMCompletion req,
                              Message_create, Conversation_update]
     \<and> mset (earlier @ later)
         = filter_mset (\<lambda>m. message_conversationId m = in_conversationId input)
             (mset (messages w))
     \<and> sorted (map message_createdAt (earlier @ um # later))
     \<and> req_messages req
         = \<lparr>chat_type = Type_System, chat_role = Role_System,
            chat_content = system_instruction\<rparr>
           # map history_turn earlier @ [user_turn (in_content input)]
           @ map history_turn later @ [user_turn (in_content input)]
     \<and> ((\<forall>m \<in> set (messages w). message_conversationId m = in_conversationId input
             \<longrightarrow> message_createdAt m < clock w + elapsed_user env)
          \<longrightarrow> later = [])"
proof -
  define um where "um = \<lparr>message_id = next_id w, message_createdAt = clock w + elapsed_user env,
                  message_conversationId = in_conversationId input, message_sender = USER,
                  message_content = in_content input\<rparr>"
  define old where "old = messages_of (in_conversationId input) w"
  define hist where "hist = take 20 (order_asc (tie_messages w) message_createdAt (old @ [um]))"
  have "length old < 20"
    using few by (simp add: old_def messages_of_def)
  then have hist_all: "hist = order_asc (tie_messages w) message_createdAt (old @ [um])"
    by (simp add: hist_def length_order_asc)
  have "um \<in> set hist"
    by (simp add: hist_all set_order_asc)
  then obtain earlier later where split: "hist = earlier @ um # later"
    by (auto dest: split_list)
  have "mset hist = mset old + {#um#}"
    by (simp add: hist_all mset_order_asc)
  then have rest: "mset (earlier @ later) = mset old"
    by (simp add: split)
  have sorted: "sorted (map message_createdAt (earlier @ um # later))"
    using sorted_order_asc [of message_createdAt "tie_messages w" "old @ [um]"]
    by (simp only: hist_all [symmetric] split)
  have last: "later = []"
    if strict: "\<forall>m \<in> set (messages w). message_conversationId m = in_conversationId input
             \<longrightarrow> message_createdAt m < clock w + elapsed_user env"
  proof -
    have "set later \<subseteq> set old"
      using rest by (metis mset_eq_setD set_append sup_ge2)
    then have "\<forall>m \<in> set later. message_createdAt m < message_createdAt um"
      using strict by (auto simp: old_def messages_of_def um_def)
    with sorted show ?thesis by (rule sorted_nothing_later)
  qed
  define req where "req = build_request pk apiKey hdrs (build_messages hist (in_content input))"
  obtain r where attempt: "try_completion env k hist (in_content input) = (r, [FetchLLMCompletion req])"
    using try_completion_called [OF parse dec hdr, of hist "in_content input"]
    by (cases "try_completion env k hist (in_content input)") (simp add: req_def)
  obtain resp where resp:
    "assistant_response env (fst (llmApiKeys_findFirst (in_projectId input) w))
               hist (in_content input) = (resp, [FetchLLMCompletion req])"
    by (cases r) (simp_all add: key assistant_response_def attempt)
  define am where "am = \<lparr>message_id = Suc (next_id w),
                  message_createdAt = clock w + elapsed_user env + elapsed_assistant env,
                  message_conversationId = in_conversationId input,
                  message_sender = ASSISTANT, message_content = resp\<rparr>"
  note run = sendMessage_found [OF content c um_def hist_def [unfolded old_def] resp am_def]
  have msgs: "req_messages req
         = \<lparr>chat_type = Type_System, chat_role = Role_System,
            chat_content = system_instruction\<rparr>
           # map history_turn earlier @ [user_turn (in_content input)]
           @ map history_turn later @ [user_turn (in_content input)]"
    by (simp add: req_def build_request_messages split build_messages_def history_turn_def
                  user_turn_def um_def)
  have rest': "mset (earlier @ later)
         = filter_mset (\<lambda>m. message_conversationId m = in_conversationId input)
             (mset (messages w))"
    using rest by (simp add: old_def messages_of_def)
  have facts: "message_sender um = USER" "message_content um = in_content input"
    "message_createdAt um = clock w + elapsed_user env"
    by (simp_all add: um_def)
  have "trace (snd (sendMessage env userId input w))
          = trace w @ [Conversation_findFirst, Message_create, Message_findMany,
                       LlmApiKeys_findFirst, FetchLLMCompletion req,
                       Message_create, Conversation_update]"
    unfolding run by simp
  moreover obtain w' where w': "sendMessage env userId input w = (Inr (um, am), w')"
    using run by simp
  ultimately have tr: "trace w' = trace w @ [Conversation_findFirst, Message_create,
                       Message_findMany, LlmApiKeys_findFirst, FetchLLMCompletion req,
                       Message_create, Conversation_update]"
    by simp
  from w' facts tr rest' sorted msgs last show ?thesis
    by blast
qed

theorem sendMessage_repeats_new_content_witness:
  "length (filter (\<lambda>m. message_conversationId m = 0) (messages (ex_world 2))) < 20
   \<and> \<not> (\<exists>m \<in> set (messages (ex_world 2)).
           clock (ex_world 2) + elapsed_user ex_env \<le> message_createdAt m)
   \<and> (\<exists>um am w' req earlier. sendMessage ex_env ''u'' (ex_input ''hi'') (ex_world 2)
                         = (Inr (um, am), w')
         \<and> completion_requests w' = [req]
         \<and> req_messages req
             = \<lparr>chat_type = Type_System, chat_role = Role_System,
                chat_content = system_instruction\<rparr>
               # map history_turn earlier @ [user_turn ''hi'', user_turn ''hi''])"
proof -
  have content: "in_content (ex_input ''hi'') \<noteq> []"
    by (simp add: ex_input_def)
  have c: "ex_conv \<in> set (conversations (ex_world 2))"
    "conversation_id ex_conv = in_conversationId (ex_input ''hi'')"
    "conversation_projectId ex_conv = in_projectId (ex_input ''hi'')"
    "conversation_userId ex_conv = ''u''"
    by (simp_all add: ex_world_def ex_conv_def ex_input_def)
  have few: "length (filter (\<lambda>m. message_conversationId m = 0) (messages (ex_world 2))) < 20"
    by code_simp
  then have few': "length (filter (\<lambda>m. message_conversationId m = in_conversationId (ex_input ''hi''))
                             (messages (ex_world 2))) < 20"
    by (simp add: ex_input_def)
  have key: "fst (llmApiKeys_findFirst (in_projectId (ex_input ''hi'')) (ex_world 2)) = Some ex_key"
    by (simp add: llmApiKeys_findFirst_def ex_world_def ex_key_def order_desc_def ex_input_def)
  have parse: "safeParse ex_env ex_key = Inr ex_key"
    and dec: "decrypt ex_env (key_secretKey ex_key) = Inr (key_secretKey ex_key)"
    and hdr: "decryptAndParseExtraHeaders ex_env (key_extraHeaders ex_key)
                = Inr (key_extraHeaders ex_key)"
    by (simp_all add: ex_env_def)
  have later_clock: "\<not> (\<exists>m \<in> set (messages (ex_world 2)).
           clock (ex_world 2) + elapsed_user ex_env \<le> message_createdAt m)"
    by code_simp
  then have strict: "\<forall>m \<in> set (messages (ex_world 2)).
      message_conversationId m = in_conversationId (ex_input ''hi'')
        \<longrightarrow> message_createdAt m < clock (ex_world 2) + elapsed_user ex_env"
    by (meson not_le)
  have start: "trace (ex_world 2) = []"
    by (simp add: ex_world_def)
  from sendMessage_repeats_new_content [OF content c few' key parse dec hdr]
  obtain um am w' req earlier later where
    run: "sendMessage ex_env ''u'' (ex_input ''hi'') (ex_world 2) = (Inr (um, am), w')"
    and tr: "trace w' = trace (ex_world 2)
                @ [Conversation_findFirst, Message_create, Message_findMany,
                   LlmApiKeys_findFirst, FetchLLMCompletion req,
                   Message_create, Conversation_update]"
    and msgs: "req_messages req
         = \<lparr>chat_type = Type_System, chat_role = Role_System,
            chat_content = system_instruction\<rparr>
           # map history_turn earlier @ [user_turn (in_content (ex_input ''hi''))]
           @ map history_turn later @ [user_turn (in_content (ex_input ''hi''))]"
    and last: "(\<forall>m \<in> set (messages (ex_world 2)).
                 message_conversationId m = in_conversationId (ex_input ''hi'')
                   \<longrightarrow> message_createdAt m < clock (ex_world 2) + elapsed_user ex_env)
               \<longrightarrow> later = []"
    by blast
  from last strict have "later = []" by blast
  with msgs have "req_messages req
             = \<lparr>chat_type = Type_System, chat_role = Role_System,
                chat_content = system_instruction\<rparr>
               # map history_turn earlier @ [user_turn ''hi'', user_turn ''hi'']"
    by (simp add: ex_input_def)
  moreover have "completion_requests w' = [req]"
    using tr by (simp add: start completion_requests_def)
  ultimately have "\<exists>um am w' req earlier. sendMessage ex_env ''u'' (ex_input ''hi'') (ex_world 2)
                         = (Inr (um, am), w')
         \<and> completion_requests w' = [req]
         \<and> req_messages req
             = \<lparr>chat_type = Type_System, chat_role = Role_System,
                chat_content = system_instruction\<rparr>
               # map history_turn earlier @ [user_turn ''hi'', user_turn ''hi'']"
    using run by blast
  with few later_clock show ?thesis by blast
qed

text \<open>
  The claim as it was stated, with the stored user message always the last turn of the
  history, fails where a stored message shares the creation time of the new one. In
  \<open>ex_world_tie\<close> the conversation holds two messages, the second an assistant
  message created at time 3, the time of the clock; no time passes before the user
  message is stored, and the database returns user messages first among equals. The
  history then ends with the assistant message, and the new content is the turn
  before it.
\<close>

theorem sendMessage_new_content_not_last_counterexample:
  "wf ex_world_tie
   \<and> length (messages_of 0 ex_world_tie) < 20
   \<and> map (map chat_content \<circ> req_messages)
       (completion_requests (snd (sendMessage ex_env_instant ''u'' (ex_input ''hi'') ex_world_tie)))
     = [[system_instruction, ''aa'', ''hi'', ''aaa'', ''hi'']]
   \<and> map (map chat_role \<circ> req_messages)
       (completion_requests (snd (sendMessage ex_env_instant ''u'' (ex_input ''hi'') ex_world_tie)))
     = [[Role_System, Role_User, Role_User, Role_Assistant, Role_User]]
   \<and> map (last \<circ> butlast \<circ> req_messages)
       (completion_requests (snd (sendMessage ex_env_instant ''u'' (ex_input ''hi'') ex_world_tie)))
     = [history_turn (ex_msg 3)]
   \<and> history_turn (ex_msg 3) \<noteq> user_turn ''hi''"
proof -
  have a: "wf ex_world_tie"
    by code_simp
  have b: "length (messages_of 0 ex_world_tie) < 20"
    by code_simp
  have c: "map (map chat_content \<circ> req_messages)
       (completion_requests (snd (sendMessage ex_env_instant ''u'' (ex_input ''hi'') ex_world_tie)))
     = [[system_instruction, ''aa'', ''hi'', ''aaa'', ''hi'']]"
    by code_simp
  have d: "map (map chat_role \<circ> req_messages)
       (completion_requests (snd (sendMessage ex_env_instant ''u'' (ex_input ''hi'') ex_world_tie)))
     = [[Role_System, Role_User, Role_User, Role_Assistant, Role_User]]"
    by code_simp
  have e: "map (last \<circ> butlast \<circ> req_messages)
       (completion_requests (snd (sendMessage ex_env_instant ''u'' (ex_input ''hi'') ex_world_tie)))
     = [history_turn (ex_msg 3)]"
    by code_simp
  have f: "history_turn (ex_msg 3) \<noteq> user_turn ''hi''"
    by code_simp
  from a b c d e f show ?thesis by blast
qed

text \<open>
  Claim C1. The history is loaded with \<^verbatim>\<open>orderBy: { createdAt: "asc" }, take: 20\<close>:
  the first 20 rows in ascending order, which are the oldest 20. In \<open>ex_world 20\<close>
  the conversation holds 20 messages, created at times 2 to 21. A send of \<open>new\<close>
  stores the user message \<open>ex_sent\<close> at time 23; the request that reaches the
  provider carries the messages created at times 2 to 21 and not the 20 latest, which
  are those created at times 3 to 21 together with \<open>ex_sent\<close>.
\<close>

theorem sendMessage_history_oldest_20:
  "fst (sendMessage ex_env ''u'' (ex_input ''new'') (ex_world 20)) = Inr (ex_sent, ex_answer)
   \<and> map req_messages
       (completion_requests (snd (sendMessage ex_env ''u'' (ex_input ''new'') (ex_world 20))))
     = [build_messages (map ex_msg [2..<22]) ''new'']
   \<and> build_messages (map ex_msg [2..<22]) ''new''
       \<noteq> build_messages (map ex_msg [3..<22] @ [ex_sent]) ''new''"
proof -
  have a: "fst (sendMessage ex_env ''u'' (ex_input ''new'') (ex_world 20))
             = Inr (ex_sent, ex_answer)"
    by code_simp
  have b: "map req_messages
       (completion_requests (snd (sendMessage ex_env ''u'' (ex_input ''new'') (ex_world 20))))
     = [build_messages (map ex_msg [2..<22]) ''new'']"
    by code_simp
  have c: "build_messages (map ex_msg [2..<22]) ''new''
       \<noteq> build_messages (map ex_msg [3..<22] @ [ex_sent]) ''new''"
    by code_simp
  from a b c show ?thesis by blast
qed

section \<open>The invariant is kept\<close>

lemma wf_empty_world: "wf empty_world"
  by (simp add: wf_def empty_world_def)

lemma wf_emit: "wf (emit e w) = wf w"
  by (simp add: wf_def emit_def)

lemma wf_create: "wf w \<Longrightarrow> wf (snd (create userId projectId w))"
  by (auto simp: wf_def create_def conversation_create_def emit_def Let_def
           intro: less_SucI)

lemma wf_byId: "wf w \<Longrightarrow> wf (snd (byId userId projectId conversationId w))"
  by (simp add: byId_def conversation_findFirst_def wf_emit split: option.split)

lemma wf_all_conversations: "wf w \<Longrightarrow> wf (snd (all_conversations userId projectId w))"
  by (simp add: all_conversations_def conversation_findMany_def wf_emit)

lemma wf_sendMessage:
  assumes wf: "wf w"
  shows "wf (snd (sendMessage env userId input w))"
proof (cases "in_content input \<noteq> [] \<and> (\<exists>c \<in> set (conversations w).
             conversation_id c = in_conversationId input
             \<and> conversation_projectId c = in_projectId input
             \<and> conversation_userId c = userId)")
  case True
  then obtain c where content: "in_content input \<noteq> []"
    and c: "c \<in> set (conversations w)" "conversation_id c = in_conversationId input"
      "conversation_projectId c = in_projectId input" "conversation_userId c = userId"
    by blast
  define um where "um = \<lparr>message_id = next_id w, message_createdAt = clock w + elapsed_user env,
                  message_conversationId = in_conversationId input, message_sender = USER,
                  message_content = in_content input\<rparr>"
  define hist where "hist = take 20 (order_asc (tie_messages w) message_createdAt
                               (messages_of (in_conversationId input) w @ [um]))"
  obtain resp calls where resp:
    "assistant_response env (fst (llmApiKeys_findFirst (in_projectId input) w))
               hist (in_content input) = (resp, calls)"
    using surj_assistant_response by blast
  define am where "am = \<lparr>message_id = Suc (next_id w),
                  message_createdAt = clock w + elapsed_user env + elapsed_assistant env,
                  message_conversationId = in_conversationId input,
                  message_sender = ASSISTANT, message_content = resp\<rparr>"
  note run = sendMessage_found [OF content c um_def hist_def resp am_def]
  let ?touch = "\<lambda>x. if conversation_id x = in_conversationId input
                    then x\<lparr>conversation_updatedAt :=
                             clock w + elapsed_user env + elapsed_assistant env
                               + elapsed_update env\<rparr>
                    else x"
  let ?t = "clock w + elapsed_user env + elapsed_assistant env + elapsed_update env"
  have touch_id: "conversation_id (?touch x) = conversation_id x" for x
    by simp
  have ids: "map conversation_id (map ?touch (conversations w)) = map conversation_id (conversations w)"
    unfolding map_map comp_def touch_id ..
  have d1: "distinct (map conversation_id (map ?touch (conversations w)))"
    unfolding ids using wf by (simp add: wf_def)
  have fresh: "\<forall>m \<in> set (messages w). message_id m < next_id w"
    using wf by (simp add: wf_def)
  have d2: "distinct (map message_id (messages w @ [um, am]))"
    using wf fresh by (auto simp: wf_def um_def am_def)
  have convs: "conversation_id x < Suc (Suc (next_id w)) \<and> conversation_createdAt x \<le> ?t
                 \<and> conversation_updatedAt x \<le> ?t"
    if "x \<in> set (map ?touch (conversations w))" for x
  proof -
    from that obtain y where y: "y \<in> set (conversations w)" "x = ?touch y" by auto
    then have "conversation_id y < next_id w" "conversation_createdAt y \<le> clock w"
      "conversation_updatedAt y \<le> clock w"
      using wf by (simp_all add: wf_def)
    then show ?thesis using y(2) by auto
  qed
  have owner: "\<exists>x \<in> set (map ?touch (conversations w)). conversation_id x = i"
    if "\<exists>y \<in> set (conversations w). conversation_id y = i" for i
  proof -
    from that obtain y where y: "y \<in> set (conversations w)" "conversation_id y = i" by blast
    then have "?touch y \<in> set (map ?touch (conversations w))" by simp
    moreover have "conversation_id (?touch y) = i" using y(2) by simp
    ultimately show ?thesis by blast
  qed
  have msgs: "message_id m < Suc (Suc (next_id w)) \<and> message_createdAt m \<le> ?t
                \<and> (\<exists>x \<in> set (map ?touch (conversations w)).
                      conversation_id x = message_conversationId m)"
    if "m \<in> set (messages w @ [um, am])" for m
  proof -
    from that consider "m \<in> set (messages w)" | "m = um" | "m = am" by auto
    then show ?thesis
    proof cases
      case 1
      then have "message_id m < next_id w" "message_createdAt m \<le> clock w"
        "\<exists>y \<in> set (conversations w). conversation_id y = message_conversationId m"
        using wf by (simp_all add: wf_def)
      then show ?thesis using owner by simp
    next
      case 2
      have "\<exists>y \<in> set (conversations w). conversation_id y = message_conversationId um"
        using c(1,2) by (auto simp: um_def)
      then show ?thesis using owner 2 by (simp add: um_def)
    next
      case 3
      have "\<exists>y \<in> set (conversations w). conversation_id y = message_conversationId am"
        using c(1,2) by (auto simp: am_def)
      then show ?thesis using owner 3 by (simp add: am_def)
    qed
  qed
  show ?thesis
    unfolding run wf_def snd_conv
    using d1 d2 convs msgs by simp
next
  case False
  then show ?thesis
  proof (cases "in_content input = []")
    case True
    then show ?thesis
      using wf by (simp add: sendMessage_def with_input_def SendMessageSchema_def)
  next
    case nonempty: False
    with False have "\<not> (\<exists>c \<in> set (conversations w).
             conversation_id c = in_conversationId input
             \<and> conversation_projectId c = in_projectId input
             \<and> conversation_userId c = userId)" by blast
    from conversation_findFirst_None [OF this] schema_nonempty [OF nonempty]
    show ?thesis
      using wf by (simp add: sendMessage_def with_input_def sendMessage_resolver_def wf_emit)
  qed
qed

end
